theory Spec2Isabelle
  imports Main "HOL-Library.Word"
begin

section \<open>Time\<close>

text \<open>
  \<open>pw::chrono::SystemClock::duration\<close> counts clock ticks. The compiler output quoted in
  \<open>blinky.cc\<close> gives the tick as 1/1000 s, so a duration is a number of milliseconds and
  \<open>SystemClock::for_at_least\<close> of a whole number of milliseconds or seconds is exact.
\<close>

type_synonym duration = nat

definition seconds :: "nat \<Rightarrow> duration" where
  "seconds n = 1000 * n"

definition for_at_least :: "duration \<Rightarrow> duration" where
  "for_at_least d = d"

section \<open>Events (pubsub\_events.h)\<close>

datatype LedValue = LedValue (r: "8 word") (g: "8 word") (b: "8 word")


section \<open>The output layer: LedOutputStateMachine (state\_manager.h)\<close>

text \<open>
  Modelled from the spec: the \<open>PolychromeLed\<close> driver (\<open>modules/led/polychrome_led.h\<close>) is
  not among the sources. The spec gives its interface as set-color(r,g,b) and
  set-brightness(u8); the source also calls \<open>SetColor(uint32_t)\<close>. The model keeps what the
  LED shows: the arguments of the last \<open>SetColor\<close> and of the last \<open>SetBrightness\<close>.
\<close>

datatype LedColor = Rgb "8 word" "8 word" "8 word" | Hex "32 word"

record PolychromeLed =
  shown_color :: LedColor
  shown_brightness :: "8 word"

definition led_SetColor :: "8 word \<Rightarrow> 8 word \<Rightarrow> 8 word \<Rightarrow> PolychromeLed \<Rightarrow> PolychromeLed" where
  "led_SetColor x y z l = l\<lparr>shown_color := Rgb x y z\<rparr>"

definition led_SetColorHex :: "32 word \<Rightarrow> PolychromeLed \<Rightarrow> PolychromeLed" where
  "led_SetColorHex c l = l\<lparr>shown_color := Hex c\<rparr>"

definition led_SetBrightness :: "8 word \<Rightarrow> PolychromeLed \<Rightarrow> PolychromeLed" where
  "led_SetBrightness v l = l\<lparr>shown_brightness := v\<rparr>"

datatype OutputState = kPassthrough | kOverride

text \<open>
  The fields \<open>state_\<close>, \<open>brightness_\<close>, \<open>red_\<close>, \<open>green_\<close>, \<open>blue_\<close> and \<open>led_\<close> of the class;
  \<open>hw_led\<close> is the LED that the pointer \<open>led_\<close> refers to.
\<close>

record LedOutputStateMachine =
  led_state :: OutputState
  brightness :: "8 word"
  red :: "8 word"
  green :: "8 word"
  blue :: "8 word"
  hw_led :: PolychromeLed

text \<open>The constructor stores its arguments and does not write to the LED.\<close>

definition LedOutputStateMachine_new :: "PolychromeLed \<Rightarrow> 8 word \<Rightarrow> LedOutputStateMachine" where
  "LedOutputStateMachine_new l v =
     \<lparr>led_state = kPassthrough, brightness = v, red = 0, green = 0, blue = 0, hw_led = l\<rparr>"

definition UpdateLed :: "LedOutputStateMachine \<Rightarrow> LedOutputStateMachine" where
  "UpdateLed s =
     (if led_state s = kPassthrough
      then s\<lparr>hw_led := led_SetBrightness (brightness s)
                         (led_SetColor (red s) (green s) (blue s) (hw_led s))\<rparr>
      else s)"

definition Override :: "32 word \<Rightarrow> 8 word \<Rightarrow> LedOutputStateMachine \<Rightarrow> LedOutputStateMachine" where
  "Override c v s =
     (let s1 = s\<lparr>led_state := kOverride\<rparr>;
          s2 = s1\<lparr>hw_led := led_SetColorHex c (hw_led s1)\<rparr>
      in s2\<lparr>hw_led := led_SetBrightness v (hw_led s2)\<rparr>)"

definition EndOverride :: "LedOutputStateMachine \<Rightarrow> LedOutputStateMachine" where
  "EndOverride s = UpdateLed (s\<lparr>led_state := kPassthrough\<rparr>)"

definition SetColor :: "LedValue \<Rightarrow> LedOutputStateMachine \<Rightarrow> LedOutputStateMachine" where
  "SetColor val s = UpdateLed (s\<lparr>red := r val, green := g val, blue := b val\<rparr>)"

definition SetBrightness :: "8 word \<Rightarrow> LedOutputStateMachine \<Rightarrow> LedOutputStateMachine" where
  "SetBrightness v s = UpdateLed (s\<lparr>brightness := v\<rparr>)"

text \<open>Observations used to state the properties of the output layer.\<close>

definition stored :: "LedOutputStateMachine \<Rightarrow> LedValue \<times> 8 word" where
  "stored s = (LedValue (red s) (green s) (blue s), brightness s)"

definition showing :: "LedValue \<times> 8 word \<Rightarrow> PolychromeLed" where
  "showing p = \<lparr>shown_color = Rgb (r (fst p)) (g (fst p)) (b (fst p)), shown_brightness = snd p\<rparr>"

text \<open>A passthrough write is a call of \<open>SetColor\<close> or of \<open>SetBrightness\<close>.\<close>

datatype PassthroughWrite = WriteColor LedValue | WriteBrightness "8 word"

fun apply_write :: "LedOutputStateMachine \<Rightarrow> PassthroughWrite \<Rightarrow> LedOutputStateMachine" where
  "apply_write s (WriteColor val) = SetColor val s"
| "apply_write s (WriteBrightness v) = SetBrightness v s"

definition apply_writes :: "PassthroughWrite list \<Rightarrow> LedOutputStateMachine \<Rightarrow> LedOutputStateMachine" where
  "apply_writes ws s = foldl apply_write s ws"

text \<open>The values that a sequence of writes leaves behind: for each of colour and
  brightness the last one written, and the starting value if none was.\<close>

fun after_writes :: "LedValue \<times> 8 word \<Rightarrow> PassthroughWrite list \<Rightarrow> LedValue \<times> 8 word" where
  "after_writes p [] = p"
| "after_writes p (WriteColor val # ws) = after_writes (val, snd p) ws"
| "after_writes p (WriteBrightness v # ws) = after_writes (fst p, v) ws"

section \<open>The countdown timer\<close>

text \<open>
  Modelled from the spec: \<open>pw::chrono::SystemTimer\<close> belongs to the Pigweed library and is
  not among the sources. The spec (4.5): \<open>arm(duration)\<close> starts or restarts a one-shot
  countdown, re-arming replaces the previous deadline; \<open>cancel()\<close> stops the timer, and
  cancelling an unarmed timer is a no-op.
\<close>

datatype SystemTimer = Unarmed | Armed duration

definition Cancel :: "SystemTimer \<Rightarrow> SystemTimer" where
  "Cancel t = (case t of Unarmed \<Rightarrow> Unarmed | Armed d \<Rightarrow> Unarmed)"

definition InvokeAfter :: "duration \<Rightarrow> SystemTimer \<Rightarrow> SystemTimer" where
  "InvokeAfter d t = Armed d"

section \<open>The state manager (state\_manager.h)\<close>

text \<open>The alternatives of the \<open>CommonBaseUnion\<close> that holds the active state, in source order.\<close>

datatype Mode =
    AirQualityMode
  | AirQualityThresholdMode
  | AirQualityAlarmMode
  | MorseReadout
  | ProximityDemo
  | MorseCodeDemo
  | ColorRotationDemo

text \<open>The name each class passes to the \<open>State\<close> constructor.\<close>

fun name :: "Mode \<Rightarrow> string" where
  "name AirQualityMode = ''AirQualityMode''"
| "name AirQualityThresholdMode = ''AirQualityThresholdMode''"
| "name AirQualityAlarmMode = ''AirQualityAlarmMode''"
| "name MorseReadout = ''MorseReadout''"
| "name ProximityDemo = ''ProximityDemo''"
| "name MorseCodeDemo = ''MorseCodeDemo''"
| "name ColorRotationDemo = ''ColorRotationDemo''"

text \<open>The classes derived from \<open>TimeoutState\<close>.\<close>

fun timeout_bearing :: "Mode \<Rightarrow> bool" where
  "timeout_bearing AirQualityThresholdMode = True"
| "timeout_bearing ProximityDemo = True"
| "timeout_bearing MorseCodeDemo = True"
| "timeout_bearing ColorRotationDemo = True"
| "timeout_bearing _ = False"

text \<open>
  The values that \<open>state_manager.h\<close> hands to \<open>pubsub_->Publish\<close>, where \<open>pubsub_\<close> is a
  \<open>PubSub = GenericPubSub<Event>\<close>: the header publishes them as events. No source file
  given declares their types, and the declaration of \<open>Event\<close> does not list them; the
  fields are those the header initialises.
\<close>

datatype Request =
    DemoModeTimerExpired
  | AlarmSilenceRequest nat
  | MorseEncodeRequest string nat

text \<open>The argument of \<open>MorseCodeEdge\<close>, with the two fields the header reads.\<close>

record MorseCodeValue =
  turn_on :: bool
  message_finished :: bool

text \<open>
  The calls the state manager makes on its collaborators (timer, output layer, event bus,
  log), recorded in program order.
\<close>

datatype Effect =
    Cancelled
  | InvokedAfter duration
  | BrightnessSet "8 word"
  | ColorSet LedValue
  | Published Request
  | Logged string string

text \<open>
  The members \<open>led_\<close>, \<open>state_\<close>, \<open>demo_mode_timer_\<close>, \<open>alarmed_\<close>, \<open>current_threshold_\<close>,
  \<open>last_air_quality_score_\<close> and \<open>air_quality_score_string_\<close>; \<open>effects\<close> is the record of
  calls made so far.
\<close>

record StateManager =
  led :: LedOutputStateMachine
  state :: Mode
  demo_mode_timer :: SystemTimer
  alarmed :: bool
  current_threshold :: "16 word"
  last_air_quality_score :: "16 word"
  air_quality_score_string :: string
  effects :: "Effect list"

definition kDemoModeTimeout :: duration where
  "kDemoModeTimeout = seconds 30"

definition kThresholdModeTimeout :: duration where
  "kThresholdModeTimeout = for_at_least (seconds 3)"

definition kDefaultBrightness :: "8 word" where
  "kDefaultBrightness = 220"

definition kThresholdIncrement :: "16 word" where
  "kThresholdIncrement = 128"

definition kMaxThreshold :: "16 word" where
  "kMaxThreshold = 768"

subsection \<open>Calls on the collaborators\<close>

definition timer_Cancel :: "StateManager \<Rightarrow> StateManager" where
  "timer_Cancel m =
     m\<lparr>demo_mode_timer := Cancel (demo_mode_timer m), effects := effects m @ [Cancelled]\<rparr>"

definition timer_InvokeAfter :: "duration \<Rightarrow> StateManager \<Rightarrow> StateManager" where
  "timer_InvokeAfter d m =
     m\<lparr>demo_mode_timer := InvokeAfter d (demo_mode_timer m),
       effects := effects m @ [InvokedAfter d]\<rparr>"

definition output_SetBrightness :: "8 word \<Rightarrow> StateManager \<Rightarrow> StateManager" where
  "output_SetBrightness v m =
     m\<lparr>led := SetBrightness v (led m), effects := effects m @ [BrightnessSet v]\<rparr>"

definition output_SetColor :: "LedValue \<Rightarrow> StateManager \<Rightarrow> StateManager" where
  "output_SetColor val m =
     m\<lparr>led := SetColor val (led m), effects := effects m @ [ColorSet val]\<rparr>"

definition Publish :: "Request \<Rightarrow> StateManager \<Rightarrow> StateManager" where
  "Publish req m = m\<lparr>effects := effects m @ [Published req]\<rparr>"


subsection \<open>Members defined outside the header\<close>

text \<open>The decimal digits of a number, for the rendered string.\<close>

fun digit_char :: "nat \<Rightarrow> char" where
  "digit_char n = char_of (48 + n)"

fun decimal :: "nat \<Rightarrow> string" where
  "decimal n = (if n < 10 then [digit_char n] else decimal (n div 10) @ [digit_char (n mod 10)])"

declare decimal.simps [simp del]

text \<open>
  Modelled from the spec: the body of \<open>StateManager::DisplayThreshold\<close> is in
  \<open>state_manager.cc\<close>, which is not among the sources. The spec: the entry action of the
  threshold mode is "render threshold", and the controller keeps "a small fixed-capacity
  rendered string of the threshold for display".
\<close>

definition DisplayThreshold :: "StateManager \<Rightarrow> StateManager" where
  "DisplayThreshold m = m\<lparr>air_quality_score_string := decimal (unat (current_threshold m))\<rparr>"

text \<open>
  Modelled from the spec: the body of \<open>StateManager::StartMorseReadout\<close> is in
  \<open>state_manager.cc\<close>, which is not among the sources. The spec: the entry action starts a
  repeating or a single-shot morse readout by publishing a morse-encode-request
  \<open>{message, repeat}\<close>, "repeat (uint, 0 = infinite)". The spec does not fix the message;
  the model sends the controller's rendered string.
\<close>

definition StartMorseReadout :: "bool \<Rightarrow> StateManager \<Rightarrow> StateManager" where
  "StartMorseReadout repeat m =
     Publish (MorseEncodeRequest (air_quality_score_string m) (if repeat then 0 else 1)) m"

text \<open>
  Modelled from the spec: the body of \<open>StateManager::LogStateChange\<close> is in
  \<open>state_manager.cc\<close>, which is not among the sources. The spec: a transition "logs the
  (old-name, new-name) pair".
\<close>

definition LogStateChange :: "string \<Rightarrow> StateManager \<Rightarrow> StateManager" where
  "LogStateChange old_state m = m\<lparr>effects := effects m @ [Logged old_state (name (state m))]\<rparr>"

text \<open>
  Modelled from the spec: the bodies of \<open>StateManager::IncrementThreshold\<close> and
  \<open>StateManager::DecrementThreshold\<close> are in \<open>state_manager.cc\<close>, which is not among the
  sources. The spec (4.6): "adjust current-threshold by +-128 clamped to [0, 768],
  re-render the display string, and re-arm the countdown with the given duration". The
  step and the maximum are the header's \<open>kThresholdIncrement\<close> and \<open>kMaxThreshold\<close>.
\<close>

definition IncrementThreshold :: "duration \<Rightarrow> StateManager \<Rightarrow> StateManager" where
  "IncrementThreshold timeout m =
     (let t = current_threshold m;
          t' = (if unat kMaxThreshold < unat t + unat kThresholdIncrement
                then kMaxThreshold else t + kThresholdIncrement)
      in timer_InvokeAfter timeout (DisplayThreshold (m\<lparr>current_threshold := t'\<rparr>)))"

definition DecrementThreshold :: "duration \<Rightarrow> StateManager \<Rightarrow> StateManager" where
  "DecrementThreshold timeout m =
     (let t = current_threshold m;
          t' = (if unat t < unat kThresholdIncrement then 0 else t - kThresholdIncrement)
      in timer_InvokeAfter timeout (DisplayThreshold (m\<lparr>current_threshold := t'\<rparr>)))"

subsection \<open>Constructors of the states\<close>

definition State_ctor :: "StateManager \<Rightarrow> StateManager" where
  "State_ctor m = output_SetBrightness kDefaultBrightness m"

definition TimeoutState_ctor :: "duration \<Rightarrow> StateManager \<Rightarrow> StateManager" where
  "TimeoutState_ctor timeout m = timer_InvokeAfter timeout (State_ctor m)"

text \<open>Each constructor runs its base class constructor first and its own body after it.\<close>

fun construct :: "Mode \<Rightarrow> StateManager \<Rightarrow> StateManager" where
  "construct AirQualityMode m = State_ctor m"
| "construct AirQualityThresholdMode m =
     DisplayThreshold (TimeoutState_ctor kThresholdModeTimeout m)"
| "construct AirQualityAlarmMode m = StartMorseReadout True (State_ctor m)"
| "construct MorseReadout m = StartMorseReadout False (State_ctor m)"
| "construct ProximityDemo m = TimeoutState_ctor kDemoModeTimeout m"
| "construct MorseCodeDemo m =
     Publish (MorseEncodeRequest ''PW'' 0)
       (output_SetColor (LedValue 0 255 255) (TimeoutState_ctor kDemoModeTimeout m))"
| "construct ColorRotationDemo m = TimeoutState_ctor kDemoModeTimeout m"

text \<open>
  \<open>state_.emplace<StateType>(*this)\<close>: the value in the slot is destroyed (the destructor
  \<open>~State()\<close> is defaulted and does nothing) and the new one is constructed in its place.
\<close>

definition emplace :: "Mode \<Rightarrow> StateManager \<Rightarrow> StateManager" where
  "emplace new m = construct new (m\<lparr>state := new\<rparr>)"

definition SetState :: "Mode \<Rightarrow> StateManager \<Rightarrow> StateManager" where
  "SetState new m =
     (let m1 = timer_Cancel m;
          old_state = name (state m1);
          m2 = emplace new m1
      in LogStateChange old_state m2)"

text \<open>
  The constructor of \<open>StateManager\<close>. \<open>AirSensor::kDefaultTheshold\<close> and
  \<open>AirSensor::kAverageScore\<close> are declared in a header that is not among the sources and are
  parameters here. Modelled from the spec: \<open>CommonBaseUnion\<close> (\<open>common_base_union.h\<close>) is
  not among the sources; \<open>state_(*this)\<close> constructs the first alternative of the union,
  \<open>AirQualityMode\<close>, which the spec has as the default mode.
\<close>

definition StateManager_new :: "PolychromeLed \<Rightarrow> 16 word \<Rightarrow> 16 word \<Rightarrow> StateManager" where
  "StateManager_new l default_threshold average_score =
     construct AirQualityMode
       \<lparr>led = LedOutputStateMachine_new l kDefaultBrightness,
        state = AirQualityMode,
        demo_mode_timer = Unarmed,
        alarmed = False,
        current_threshold = default_threshold,
        last_air_quality_score = average_score,
        air_quality_score_string = [],
        effects = []\<rparr>"

subsection \<open>Event handlers of the active state\<close>

text \<open>
  Each handler is a virtual member of \<open>State\<close>; the definition selects the override of the
  class of the active state, and the default of \<open>State\<close> (or of \<open>TimeoutState\<close>) where the
  class has none. No class overrides \<open>AlarmStateChanged\<close>.
\<close>

definition AlarmStateChanged :: "bool \<Rightarrow> StateManager \<Rightarrow> StateManager" where
  "AlarmStateChanged alarm m =
     (if alarmed m = alarm then m
      else let m1 = m\<lparr>alarmed := alarm\<rparr>
           in if alarm then SetState AirQualityAlarmMode m1 else SetState AirQualityMode m1)"

definition ButtonAReleased :: "StateManager \<Rightarrow> StateManager" where
  "ButtonAReleased m =
     (case state m of
        AirQualityThresholdMode \<Rightarrow> IncrementThreshold kThresholdModeTimeout m
      | _ \<Rightarrow> SetState AirQualityThresholdMode m)"

definition ButtonBReleased :: "StateManager \<Rightarrow> StateManager" where
  "ButtonBReleased m =
     (case state m of
        AirQualityThresholdMode \<Rightarrow> DecrementThreshold kThresholdModeTimeout m
      | _ \<Rightarrow> SetState AirQualityThresholdMode m)"

definition ButtonXReleased :: "StateManager \<Rightarrow> StateManager" where
  "ButtonXReleased m =
     (case state m of
        AirQualityMode \<Rightarrow> SetState ProximityDemo m
      | MorseReadout \<Rightarrow> SetState ProximityDemo m
      | ProximityDemo \<Rightarrow> SetState MorseCodeDemo m
      | MorseCodeDemo \<Rightarrow> SetState ColorRotationDemo m
      | ColorRotationDemo \<Rightarrow> SetState ProximityDemo m
      | _ \<Rightarrow> m)"

definition ButtonYReleased :: "StateManager \<Rightarrow> StateManager" where
  "ButtonYReleased m =
     (case state m of
        AirQualityMode \<Rightarrow> SetState MorseReadout m
      | AirQualityThresholdMode \<Rightarrow> SetState MorseReadout m
      | AirQualityAlarmMode \<Rightarrow> Publish (AlarmSilenceRequest 60) m
      | MorseReadout \<Rightarrow> SetState AirQualityMode m
      | ProximityDemo \<Rightarrow> SetState MorseReadout m
      | MorseCodeDemo \<Rightarrow> SetState MorseReadout m
      | ColorRotationDemo \<Rightarrow> SetState MorseReadout m)"

definition ProximityModeLedValue :: "LedValue \<Rightarrow> StateManager \<Rightarrow> StateManager" where
  "ProximityModeLedValue val m =
     (case state m of ProximityDemo \<Rightarrow> output_SetColor val m | _ \<Rightarrow> m)"

definition AirQualityModeLedValue :: "LedValue \<Rightarrow> StateManager \<Rightarrow> StateManager" where
  "AirQualityModeLedValue val m =
     (case state m of
        AirQualityMode \<Rightarrow> output_SetColor val m
      | AirQualityAlarmMode \<Rightarrow> output_SetColor val m
      | _ \<Rightarrow> m)"

definition ColorRotationModeLedValue :: "LedValue \<Rightarrow> StateManager \<Rightarrow> StateManager" where
  "ColorRotationModeLedValue val m =
     (case state m of ColorRotationDemo \<Rightarrow> output_SetColor val m | _ \<Rightarrow> m)"

definition MorseCodeEdge :: "MorseCodeValue \<Rightarrow> StateManager \<Rightarrow> StateManager" where
  "MorseCodeEdge val m =
     (case state m of
        AirQualityAlarmMode \<Rightarrow>
          output_SetBrightness (if turn_on val then kDefaultBrightness else 0) m
      | MorseReadout \<Rightarrow>
          (let m1 = output_SetBrightness (if turn_on val then kDefaultBrightness else 0) m
           in if message_finished val then SetState AirQualityMode m1 else m1)
      | MorseCodeDemo \<Rightarrow>
          output_SetBrightness (if turn_on val then kDefaultBrightness else 0) m
      | _ \<Rightarrow> m)"

text \<open>\<open>State::DemoModeTimerExpired\<close>, overridden by \<open>TimeoutState\<close> only.\<close>

definition DemoModeTimerExpired_handler :: "StateManager \<Rightarrow> StateManager" where
  "DemoModeTimerExpired_handler m =
     (case state m of
        AirQualityMode \<Rightarrow> m
      | AirQualityThresholdMode \<Rightarrow> SetState AirQualityMode m
      | AirQualityAlarmMode \<Rightarrow> m
      | MorseReadout \<Rightarrow> m
      | ProximityDemo \<Rightarrow> SetState AirQualityMode m
      | MorseCodeDemo \<Rightarrow> SetState AirQualityMode m
      | ColorRotationDemo \<Rightarrow> SetState AirQualityMode m)"

subsection \<open>The transition as the specification words it\<close>

text \<open>
  What a constructor does after the part inherited from \<open>State\<close>: \<open>TimeoutState\<close> arms the
  timer, then the body of the class itself runs.
\<close>

fun entry_action :: "Mode \<Rightarrow> StateManager \<Rightarrow> StateManager" where
  "entry_action AirQualityMode m = m"
| "entry_action AirQualityThresholdMode m =
     DisplayThreshold (timer_InvokeAfter kThresholdModeTimeout m)"
| "entry_action AirQualityAlarmMode m = StartMorseReadout True m"
| "entry_action MorseReadout m = StartMorseReadout False m"
| "entry_action ProximityDemo m = timer_InvokeAfter kDemoModeTimeout m"
| "entry_action MorseCodeDemo m =
     Publish (MorseEncodeRequest ''PW'' 0)
       (output_SetColor (LedValue 0 255 255) (timer_InvokeAfter kDemoModeTimeout m))"
| "entry_action ColorRotationDemo m = timer_InvokeAfter kDemoModeTimeout m"

text \<open>
  The five steps in the order of the specification (4.2): cancel the timer, destroy the
  current mode value, construct the new one in the same storage with its entry action,
  reset the output brightness to the default, log the pair of names.
\<close>

definition SetState_as_specified :: "Mode \<Rightarrow> StateManager \<Rightarrow> StateManager" where
  "SetState_as_specified new m =
     (let m1 = timer_Cancel m;
          old_state = name (state m1);
          m2 = entry_action new (m1\<lparr>state := new\<rparr>);
          m3 = output_SetBrightness kDefaultBrightness m2
      in LogStateChange old_state m3)"

text \<open>
  The calls that the entry action of a mode adds to the record; \<open>msg\<close> is the controller's
  rendered string at that moment.
\<close>

fun entry_effects :: "Mode \<Rightarrow> string \<Rightarrow> Effect list" where
  "entry_effects AirQualityMode msg = []"
| "entry_effects AirQualityThresholdMode msg = [InvokedAfter (seconds 3)]"
| "entry_effects AirQualityAlarmMode msg = [Published (MorseEncodeRequest msg 0)]"
| "entry_effects MorseReadout msg = [Published (MorseEncodeRequest msg 1)]"
| "entry_effects ProximityDemo msg = [InvokedAfter (seconds 30)]"
| "entry_effects MorseCodeDemo msg =
     [InvokedAfter (seconds 30), ColorSet (LedValue 0 255 255),
      Published (MorseEncodeRequest ''PW'' 0)]"
| "entry_effects ColorRotationDemo msg = [InvokedAfter (seconds 30)]"

subsection \<open>Sequences of threshold adjustments\<close>

datatype ThresholdCall = Increment duration | Decrement duration

fun threshold_call :: "StateManager \<Rightarrow> ThresholdCall \<Rightarrow> StateManager" where
  "threshold_call m (Increment d) = IncrementThreshold d m"
| "threshold_call m (Decrement d) = DecrementThreshold d m"

definition threshold_steps :: "16 word set" where
  "threshold_steps = {0, 128, 256, 384, 512, 640, 768}"

section \<open>The kinds of event\<close>




section \<open>Blinky (blinky.cc)\<close>

text \<open>\<open>pw::Status\<close>: OK, or an error code.\<close>

datatype Status = OkStatus | ErrorStatus nat

text \<open>
  What a member of \<open>Blinky\<close> does to the outside, in program order: a line written with
  \<open>PW_LOG_INFO\<close> (format string and arguments), a call on the monochrome LED, a wait on the
  timer, a call of \<open>blink_task_.Deregister()\<close>.
\<close>

datatype BlinkyEffect =
    LogInfo string "nat list"
  | LedTurnOff
  | LedTurnOn
  | LedToggle
  | WaitFor duration
  | Deregister

fun is_led_operation :: "BlinkyEffect \<Rightarrow> bool" where
  "is_led_operation LedTurnOff = True"
| "is_led_operation LedTurnOn = True"
| "is_led_operation LedToggle = True"
| "is_led_operation _ = False"

text \<open>
  The state that the members shown in \<open>blinky.cc\<close> read and write: whether the monochrome
  LED is lit, whether the blink task is registered with the dispatcher, and the record of
  what was done so far. Locks are not modelled.
\<close>

record Blinky =
  monochrome_led_lit :: bool
  blink_task_registered :: bool
  performed :: "BlinkyEffect list"

definition log_info :: "string \<Rightarrow> nat list \<Rightarrow> Blinky \<Rightarrow> Blinky" where
  "log_info fmt args x = x\<lparr>performed := performed x @ [LogInfo fmt args]\<rparr>"

definition mono_TurnOff :: "Blinky \<Rightarrow> Blinky" where
  "mono_TurnOff x = x\<lparr>monochrome_led_lit := False, performed := performed x @ [LedTurnOff]\<rparr>"

definition mono_TurnOn :: "Blinky \<Rightarrow> Blinky" where
  "mono_TurnOn x = x\<lparr>monochrome_led_lit := True, performed := performed x @ [LedTurnOn]\<rparr>"

definition mono_Toggle :: "Blinky \<Rightarrow> Blinky" where
  "mono_Toggle x = x\<lparr>monochrome_led_lit := \<not> monochrome_led_lit x, performed := performed x @ [LedToggle]\<rparr>"

definition timer_WaitFor :: "duration \<Rightarrow> Blinky \<Rightarrow> Blinky" where
  "timer_WaitFor d x = x\<lparr>performed := performed x @ [WaitFor d]\<rparr>"

definition blink_task_Deregister :: "Blinky \<Rightarrow> Blinky" where
  "blink_task_Deregister x = x\<lparr>blink_task_registered := False, performed := performed x @ [Deregister]\<rparr>"

definition Toggle :: "Blinky \<Rightarrow> Blinky" where
  "Toggle x = mono_Toggle (log_info ''Toggling LED'' [] (blink_task_Deregister x))"

definition SetLed :: "bool \<Rightarrow> Blinky \<Rightarrow> Blinky" where
  "SetLed on x =
     (let x1 = blink_task_Deregister x
      in if on then mono_TurnOn (log_info ''Setting LED on'' [] x1)
         else mono_TurnOff (log_info ''Setting LED off'' [] x1))"

text \<open>Every statement of \<open>BlinkTwice\<close> but the log line and the return is commented out.\<close>

definition BlinkTwice :: "Blinky \<Rightarrow> Status \<times> Blinky" where
  "BlinkTwice x =
     (let num_toggles = (4 :: 32 word);
          interval_ms = (1000 :: 32 word);
          x1 = log_info ''Blinking %u times at a %ums interval''
                 [unat (num_toggles div 2), unat interval_ms] x
      in (OkStatus, x1))"

text \<open>One pass through the body of the \<open>for\<close> loop of \<open>BlinkLoop\<close>.\<close>

definition blink_once :: "duration \<Rightarrow> Blinky \<Rightarrow> Blinky" where
  "blink_once interval x =
     (let x1 = mono_TurnOff (log_info ''LED blinking: OFF'' [] x);
          x2 = timer_WaitFor interval x1;
          x3 = mono_TurnOn (log_info ''LED blinking: ON'' [] x2)
      in timer_WaitFor interval x3)"

text \<open>What follows the loop.\<close>

definition blink_stop :: "Blinky \<Rightarrow> Status \<times> Blinky" where
  "blink_stop x = (OkStatus, log_info ''Stopped blinking'' [] (mono_TurnOff x))"

text \<open>
  The loop \<open>for (uint32_t blinked = 0; blinked < blink_count || blink_count == 0; ++blinked)\<close>,
  from a given value of \<open>blinked\<close>. The counter is a 32-bit word and \<open>++blinked\<close> wraps. The
  result is \<open>None\<close> when the loop does not end.
\<close>

partial_function (option) BlinkLoop_from ::
  "32 word \<Rightarrow> 32 word \<Rightarrow> duration \<Rightarrow> Blinky \<Rightarrow> (Status \<times> Blinky) option" where
  "BlinkLoop_from blinked blink_count interval x =
     (if blinked < blink_count \<or> blink_count = 0
      then BlinkLoop_from (blinked + 1) blink_count interval (blink_once interval x)
      else Some (blink_stop x))"

definition BlinkLoop :: "32 word \<Rightarrow> duration \<Rightarrow> Blinky \<Rightarrow> (Status \<times> Blinky) option" where
  "BlinkLoop blink_count interval x = BlinkLoop_from 0 blink_count interval x"

text \<open>What \<open>n\<close> passes through the loop body and the statements after the loop record.\<close>

definition blink_record :: "nat \<Rightarrow> duration \<Rightarrow> BlinkyEffect list" where
  "blink_record n interval =
     concat (replicate n
       [LogInfo ''LED blinking: OFF'' [], LedTurnOff, WaitFor interval,
        LogInfo ''LED blinking: ON'' [], LedTurnOn, WaitFor interval])
     @ [LedTurnOff, LogInfo ''Stopped blinking'' []]"

section \<open>Properties of the output layer\<close>

lemma stored_apply_write:
  "stored (apply_write s w) = after_writes (stored s) [w]"
  by (cases w) (simp_all add: stored_def SetColor_def SetBrightness_def UpdateLed_def)

lemma led_state_apply_write: "led_state (apply_write s w) = led_state s"
  by (cases w) (simp_all add: SetColor_def SetBrightness_def UpdateLed_def)

lemma hw_led_apply_write_override:
  "led_state s = kOverride \<Longrightarrow> hw_led (apply_write s w) = hw_led s"
  by (cases w) (simp_all add: SetColor_def SetBrightness_def UpdateLed_def)

lemma after_writes_step:
  "after_writes p (w # ws) = after_writes (after_writes p [w]) ws"
  by (cases w) simp_all

lemma writes_in_override:
  "led_state s = kOverride \<Longrightarrow>
     led_state (foldl apply_write s ws) = kOverride \<and>
     hw_led (foldl apply_write s ws) = hw_led s \<and>
     stored (foldl apply_write s ws) = after_writes (stored s) ws"
proof (induction ws arbitrary: s)
  case Nil
  then show ?case by simp
next
  case (Cons w ws)
  have st: "led_state (apply_write s w) = kOverride"
    using Cons.prems by (simp add: led_state_apply_write)
  have hw: "hw_led (apply_write s w) = hw_led s"
    using Cons.prems by (rule hw_led_apply_write_override)
  from Cons.IH [OF st] show ?case
    using hw stored_apply_write [of s w] after_writes_step [of "stored s" w ws] by simp
qed

lemma EndOverride_effect:
  "led_state (EndOverride s) = kPassthrough \<and> stored (EndOverride s) = stored s \<and>
   hw_led (EndOverride s) = showing (stored s)"
  by (simp add: EndOverride_def UpdateLed_def stored_def showing_def
      led_SetColor_def led_SetBrightness_def)

text \<open>
  C6. \<open>SetColor\<close> and \<open>SetBrightness\<close> always update the stored passthrough values, and
  write them to the LED exactly when the layer is in passthrough state (in override state
  the LED is left as it is). \<open>Override\<close> switches to override state and shows the given
  values without changing the stored ones. \<open>EndOverride\<close> switches back to passthrough and
  shows the stored values. Hence, for every sequence of passthrough writes made in
  override state, the LED does not change while they are made, the stored values are the
  last ones written, and these are what the LED shows once override ends.
\<close>

theorem output_layer_passthrough_override:
  "stored (SetColor val s) = (val, brightness s)
   \<and> led_state (SetColor val s) = led_state s
   \<and> hw_led (SetColor val s) =
       (if led_state s = kPassthrough then showing (val, brightness s) else hw_led s)
   \<and> stored (SetBrightness v s) = (fst (stored s), v)
   \<and> led_state (SetBrightness v s) = led_state s
   \<and> hw_led (SetBrightness v s) =
       (if led_state s = kPassthrough then showing (fst (stored s), v) else hw_led s)
   \<and> led_state (Override c v s) = kOverride
   \<and> stored (Override c v s) = stored s
   \<and> hw_led (Override c v s) = \<lparr>shown_color = Hex c, shown_brightness = v\<rparr>
   \<and> led_state (EndOverride s) = kPassthrough
   \<and> stored (EndOverride s) = stored s
   \<and> hw_led (EndOverride s) = showing (stored s)
   \<and> (led_state s = kOverride \<longrightarrow>
        led_state (apply_writes ws s) = kOverride
        \<and> hw_led (apply_writes ws s) = hw_led s
        \<and> stored (apply_writes ws s) = after_writes (stored s) ws
        \<and> hw_led (EndOverride (apply_writes ws s)) = showing (after_writes (stored s) ws))"
proof -
  have col: "stored (SetColor val s) = (val, brightness s)
     \<and> led_state (SetColor val s) = led_state s
     \<and> hw_led (SetColor val s) =
       (if led_state s = kPassthrough then showing (val, brightness s) else hw_led s)"
    by (simp add: SetColor_def UpdateLed_def stored_def showing_def
        led_SetColor_def led_SetBrightness_def)
  have bri: "stored (SetBrightness v s) = (fst (stored s), v)
     \<and> led_state (SetBrightness v s) = led_state s
     \<and> hw_led (SetBrightness v s) =
       (if led_state s = kPassthrough then showing (fst (stored s), v) else hw_led s)"
    by (simp add: SetBrightness_def UpdateLed_def stored_def showing_def
        led_SetColor_def led_SetBrightness_def)
  have ovr: "led_state (Override c v s) = kOverride
     \<and> stored (Override c v s) = stored s
     \<and> hw_led (Override c v s) = \<lparr>shown_color = Hex c, shown_brightness = v\<rparr>"
    by (simp add: Override_def Let_def stored_def led_SetColorHex_def led_SetBrightness_def)
  have seq: "led_state s = kOverride \<longrightarrow>
        led_state (apply_writes ws s) = kOverride
        \<and> hw_led (apply_writes ws s) = hw_led s
        \<and> stored (apply_writes ws s) = after_writes (stored s) ws
        \<and> hw_led (EndOverride (apply_writes ws s)) = showing (after_writes (stored s) ws)"
    using writes_in_override [of s ws] EndOverride_effect [of "apply_writes ws s"]
    by (simp add: apply_writes_def)
  show ?thesis
    using col bri ovr EndOverride_effect [of s] seq by blast
qed

theorem output_layer_passthrough_override_witness:
  "led_state (Override 16711680 10
      (LedOutputStateMachine_new \<lparr>shown_color = Rgb 0 0 0, shown_brightness = 0\<rparr> 220)) = kOverride
   \<and> hw_led (apply_writes [WriteColor (LedValue 1 2 3), WriteBrightness 7, WriteColor (LedValue 4 5 6)]
      (Override 16711680 10
        (LedOutputStateMachine_new \<lparr>shown_color = Rgb 0 0 0, shown_brightness = 0\<rparr> 220))) =
     \<lparr>shown_color = Hex 16711680, shown_brightness = 10\<rparr>
   \<and> hw_led (EndOverride
      (apply_writes [WriteColor (LedValue 1 2 3), WriteBrightness 7, WriteColor (LedValue 4 5 6)]
        (Override 16711680 10
          (LedOutputStateMachine_new \<lparr>shown_color = Rgb 0 0 0, shown_brightness = 0\<rparr> 220)))) =
     \<lparr>shown_color = Rgb 4 5 6, shown_brightness = 7\<rparr>"
  using output_layer_passthrough_override
    [where s = "Override 16711680 10
        (LedOutputStateMachine_new \<lparr>shown_color = Rgb 0 0 0, shown_brightness = 0\<rparr> 220)"
      and ws = "[WriteColor (LedValue 1 2 3), WriteBrightness 7, WriteColor (LedValue 4 5 6)]"]
  by (simp add: Override_def Let_def LedOutputStateMachine_new_def led_SetColorHex_def
      led_SetBrightness_def stored_def showing_def)

lemma EndOverride_synced:
  "led_state s = kPassthrough \<Longrightarrow> hw_led s = showing (stored s) \<Longrightarrow> EndOverride s = s"
  by (simp add: EndOverride_def UpdateLed_def stored_def showing_def led_SetColor_def
      led_SetBrightness_def)

lemma EndOverride_twice: "EndOverride (EndOverride s) = EndOverride s"
  by (simp add: EndOverride_def UpdateLed_def led_SetColor_def led_SetBrightness_def)

lemma passthrough_write_synced:
  "led_state s = kPassthrough \<Longrightarrow>
     hw_led (SetColor val s) = showing (stored (SetColor val s))
     \<and> hw_led (SetBrightness v s) = showing (stored (SetBrightness v s))"
  by (simp add: SetColor_def SetBrightness_def UpdateLed_def stored_def showing_def
      led_SetColor_def led_SetBrightness_def)

text \<open>
  C8, as the code has it. \<open>EndOverride\<close> in passthrough state leaves the override flag and
  the stored colour and brightness unchanged and makes the LED show the stored values. It
  therefore changes nothing whenever the LED already shows the stored values, which is so
  directly after an \<open>EndOverride\<close>, a \<open>SetColor\<close> or a \<open>SetBrightness\<close> made in passthrough
  state; in particular a second \<open>EndOverride\<close> is a no-op. Likewise \<open>Cancel\<close> on an unarmed
  countdown timer is a no-op: the timer stays unarmed and nothing else of the controller
  changes.
\<close>

theorem EndOverride_passthrough:
  "led_state s = kPassthrough \<Longrightarrow>
     led_state (EndOverride s) = kPassthrough
     \<and> stored (EndOverride s) = stored s
     \<and> hw_led (EndOverride s) = showing (stored s)
     \<and> (hw_led s = showing (stored s) \<longrightarrow> EndOverride s = s)
     \<and> EndOverride (EndOverride s) = EndOverride s
     \<and> EndOverride (SetColor val s) = SetColor val s
     \<and> EndOverride (SetBrightness v s) = SetBrightness v s
     \<and> Cancel Unarmed = Unarmed
     \<and> (demo_mode_timer m = Unarmed \<longrightarrow> (timer_Cancel m)\<lparr>effects := effects m\<rparr> = m)"
proof -
  assume p: "led_state s = kPassthrough"
  have c: "led_state (SetColor val s) = kPassthrough"
    using p by (simp add: SetColor_def UpdateLed_def)
  have d: "led_state (SetBrightness v s) = kPassthrough"
    using p by (simp add: SetBrightness_def UpdateLed_def)
  have t: "Cancel Unarmed = Unarmed
     \<and> (demo_mode_timer m = Unarmed \<longrightarrow> (timer_Cancel m)\<lparr>effects := effects m\<rparr> = m)"
    by (simp add: Cancel_def timer_Cancel_def)
  show ?thesis
    using EndOverride_effect [of s] EndOverride_synced [OF p] EndOverride_twice [of s]
      EndOverride_synced [OF c] EndOverride_synced [OF d] passthrough_write_synced [OF p] t
    by simp
qed

theorem EndOverride_passthrough_witness:
  "led_state (SetBrightness 220
      (LedOutputStateMachine_new \<lparr>shown_color = Rgb 255 0 0, shown_brightness = 10\<rparr> 100)) = kPassthrough
   \<and> EndOverride (SetBrightness 220
      (LedOutputStateMachine_new \<lparr>shown_color = Rgb 255 0 0, shown_brightness = 10\<rparr> 100)) =
     \<lparr>led_state = kPassthrough, brightness = 220, red = 0, green = 0, blue = 0,
      hw_led = \<lparr>shown_color = Rgb 0 0 0, shown_brightness = 220\<rparr>\<rparr>"
proof -
  have p: "led_state
      (LedOutputStateMachine_new \<lparr>shown_color = Rgb 255 0 0, shown_brightness = 10\<rparr> 100) = kPassthrough"
    by (simp add: LedOutputStateMachine_new_def)
  have e: "SetBrightness 220
      (LedOutputStateMachine_new \<lparr>shown_color = Rgb 255 0 0, shown_brightness = 10\<rparr> 100) =
     \<lparr>led_state = kPassthrough, brightness = 220, red = 0, green = 0, blue = 0,
      hw_led = \<lparr>shown_color = Rgb 0 0 0, shown_brightness = 220\<rparr>\<rparr>"
    by (simp add: LedOutputStateMachine_new_def SetBrightness_def UpdateLed_def
        led_SetColor_def led_SetBrightness_def)
  show ?thesis
    using EndOverride_passthrough [OF p, where v = 220] e by simp
qed

text \<open>
  Without the condition on the LED the statement fails: the constructor of the output layer
  does not write to the LED, so over an LED that shows red at brightness 10 (as after
  \<open>Blinky::SetRgb(255, 0, 0, 10)\<close>) the layer is in passthrough state and \<open>EndOverride\<close>
  changes what the LED shows.
\<close>

theorem EndOverride_passthrough_counterexample:
  "led_state
      (LedOutputStateMachine_new \<lparr>shown_color = Rgb 255 0 0, shown_brightness = 10\<rparr> 220) = kPassthrough
   \<and> hw_led (EndOverride
      (LedOutputStateMachine_new \<lparr>shown_color = Rgb 255 0 0, shown_brightness = 10\<rparr> 220)) =
     \<lparr>shown_color = Rgb 0 0 0, shown_brightness = 220\<rparr>
   \<and> EndOverride
      (LedOutputStateMachine_new \<lparr>shown_color = Rgb 255 0 0, shown_brightness = 10\<rparr> 220) \<noteq>
     LedOutputStateMachine_new \<lparr>shown_color = Rgb 255 0 0, shown_brightness = 10\<rparr> 220"
  by (simp add: LedOutputStateMachine_new_def EndOverride_def UpdateLed_def led_SetColor_def
      led_SetBrightness_def)

section \<open>Properties of the transition\<close>

lemmas call_defs = timer_Cancel_def timer_InvokeAfter_def output_SetBrightness_def
  output_SetColor_def Publish_def DisplayThreshold_def StartMorseReadout_def LogStateChange_def

lemma construct_entry_action: "construct M m = entry_action M (State_ctor m)"
  by (cases M) (simp_all add: TimeoutState_ctor_def)

lemma SetState_steps:
  "SetState M m =
     LogStateChange (name (state m))
       (entry_action M
         (output_SetBrightness kDefaultBrightness ((timer_Cancel m)\<lparr>state := M\<rparr>)))"
  by (simp add: SetState_def Let_def emplace_def construct_entry_action State_ctor_def
      timer_Cancel_def)

lemma entry_action_fields:
  "state (entry_action M m) = state m \<and> alarmed (entry_action M m) = alarmed m
   \<and> current_threshold (entry_action M m) = current_threshold m
   \<and> last_air_quality_score (entry_action M m) = last_air_quality_score m
   \<and> effects (entry_action M m) = effects m @ entry_effects M (air_quality_score_string m)
   \<and> demo_mode_timer (entry_action M m) =
       (if timeout_bearing M
        then Armed (if M = AirQualityThresholdMode then seconds 3 else seconds 30)
        else demo_mode_timer m)
   \<and> brightness (led (entry_action M m)) = brightness (led m)"
  by (cases M) (simp_all add: call_defs kThresholdModeTimeout_def kDemoModeTimeout_def
      for_at_least_def InvokeAfter_def SetColor_def UpdateLed_def)

lemma SetState_fields:
  "state (SetState M m) = M \<and> alarmed (SetState M m) = alarmed m
   \<and> current_threshold (SetState M m) = current_threshold m
   \<and> last_air_quality_score (SetState M m) = last_air_quality_score m
   \<and> demo_mode_timer (SetState M m) =
       (if timeout_bearing M
        then Armed (if M = AirQualityThresholdMode then seconds 3 else seconds 30)
        else Unarmed)
   \<and> brightness (led (SetState M m)) = kDefaultBrightness"
  apply (simp only: SetState_steps)
  apply (simp add: LogStateChange_def entry_action_fields)
  apply (simp add: call_defs Cancel_def SetBrightness_def UpdateLed_def
      split: SystemTimer.splits)
  done

lemma SetState_effects:
  "effects (SetState M m) =
     effects m @ [Cancelled, BrightnessSet kDefaultBrightness]
       @ entry_effects M (air_quality_score_string m)
       @ [Logged (name (state m)) (name M)]"
  apply (simp only: SetState_steps)
  apply (simp add: LogStateChange_def entry_action_fields)
  apply (simp add: call_defs)
  done

lemma SetState_same_but_order:
  "(SetState M m)\<lparr>effects := []\<rparr> = (SetState_as_specified M m)\<lparr>effects := []\<rparr>"
  apply (simp only: SetState_steps SetState_as_specified_def Let_def)
  apply (cases M)
        apply (simp_all add: call_defs Cancel_def SetBrightness_def SetColor_def UpdateLed_def
      led_SetColor_def led_SetBrightness_def)
  done

lemma example_manager:
  "StateManager_new \<lparr>shown_color = Rgb 0 0 0, shown_brightness = 0\<rparr> 384 512 =
    \<lparr>led = \<lparr>led_state = kPassthrough, brightness = 220, red = 0, green = 0, blue = 0,
            hw_led = \<lparr>shown_color = Rgb 0 0 0, shown_brightness = 220\<rparr>\<rparr>,
     state = AirQualityMode, demo_mode_timer = Unarmed, alarmed = False,
     current_threshold = 384, last_air_quality_score = 512,
     air_quality_score_string = [], effects = [BrightnessSet 220]\<rparr>"
  by (simp add: StateManager_new_def State_ctor_def output_SetBrightness_def
      LedOutputStateMachine_new_def kDefaultBrightness_def SetBrightness_def UpdateLed_def
      led_SetColor_def led_SetBrightness_def)

text \<open>
  C1, as the code has it. For every mode \<open>M\<close>, \<open>SetState<M>()\<close> performs exactly this
  sequence: it cancels the countdown timer unconditionally; it replaces the current mode
  value by \<open>M\<close> in the same slot; the construction of \<open>M\<close> first resets the output brightness
  to the default (the constructor of the base class \<open>State\<close>) and then runs the entry action
  of \<open>M\<close> (arming the timer for a timeout-bearing mode, then the body of the class); last it
  logs the pair of old and new name. Afterwards the active mode is \<open>M\<close>, and the timer is
  armed if and only if \<open>M\<close> is timeout-bearing. Apart from the order of the calls, the
  resulting state is the one that the order of the specification gives.
\<close>

theorem SetState_sequence:
  "SetState M m =
     LogStateChange (name (state m))
       (entry_action M
         (output_SetBrightness kDefaultBrightness ((timer_Cancel m)\<lparr>state := M\<rparr>)))
   \<and> effects (SetState M m) =
       effects m @ [Cancelled, BrightnessSet kDefaultBrightness]
         @ entry_effects M (air_quality_score_string m)
         @ [Logged (name (state m)) (name M)]
   \<and> state (SetState M m) = M
   \<and> (demo_mode_timer (SetState M m) \<noteq> Unarmed) = timeout_bearing M
   \<and> brightness (led (SetState M m)) = kDefaultBrightness
   \<and> (SetState M m)\<lparr>effects := []\<rparr> = (SetState_as_specified M m)\<lparr>effects := []\<rparr>"
  using SetState_steps [of M m] SetState_effects [of M m] SetState_fields [of M m]
    SetState_same_but_order [of M m]
  by simp

theorem SetState_sequence_witness:
  "timeout_bearing ProximityDemo
   \<and> demo_mode_timer (SetState ProximityDemo
      (StateManager_new \<lparr>shown_color = Rgb 0 0 0, shown_brightness = 0\<rparr> 384 512)) \<noteq> Unarmed
   \<and> effects (SetState ProximityDemo
      (StateManager_new \<lparr>shown_color = Rgb 0 0 0, shown_brightness = 0\<rparr> 384 512)) =
     [BrightnessSet 220, Cancelled, BrightnessSet 220, InvokedAfter 30000,
      Logged ''AirQualityMode'' ''ProximityDemo'']"
  using SetState_sequence [of ProximityDemo
      "StateManager_new \<lparr>shown_color = Rgb 0 0 0, shown_brightness = 0\<rparr> 384 512"]
  by (simp add: example_manager kDefaultBrightness_def kDemoModeTimeout_def seconds_def
      call_defs InvokeAfter_def)

text \<open>
  The sequence as the specification orders it (brightness reset after the entry action)
  is not the one performed: entering \<open>MorseCodeDemo\<close> from the initial state, the code sets
  the brightness before it arms the timer, sets the colour and publishes the request.
\<close>

theorem SetState_sequence_counterexample:
  "effects (SetState MorseCodeDemo
      (StateManager_new \<lparr>shown_color = Rgb 0 0 0, shown_brightness = 0\<rparr> 384 512)) =
     [BrightnessSet 220, Cancelled, BrightnessSet 220, InvokedAfter 30000,
      ColorSet (LedValue 0 255 255), Published (MorseEncodeRequest ''PW'' 0),
      Logged ''AirQualityMode'' ''MorseCodeDemo'']
   \<and> effects (SetState_as_specified MorseCodeDemo
      (StateManager_new \<lparr>shown_color = Rgb 0 0 0, shown_brightness = 0\<rparr> 384 512)) =
     [BrightnessSet 220, Cancelled, InvokedAfter 30000,
      ColorSet (LedValue 0 255 255), Published (MorseEncodeRequest ''PW'' 0),
      BrightnessSet 220, Logged ''AirQualityMode'' ''MorseCodeDemo'']
   \<and> SetState MorseCodeDemo
      (StateManager_new \<lparr>shown_color = Rgb 0 0 0, shown_brightness = 0\<rparr> 384 512) \<noteq>
     SetState_as_specified MorseCodeDemo
      (StateManager_new \<lparr>shown_color = Rgb 0 0 0, shown_brightness = 0\<rparr> 384 512)"
  by (simp add: example_manager SetState_def SetState_as_specified_def Let_def emplace_def
      TimeoutState_ctor_def State_ctor_def call_defs kDemoModeTimeout_def seconds_def
      kDefaultBrightness_def)

section \<open>Properties of the event handlers\<close>

text \<open>
  C3. Whatever mode is active, \<open>AlarmStateChanged(a)\<close> with \<open>a\<close> different from the stored
  flag \<open>alarmed_\<close> stores \<open>a\<close> and makes the transition to \<open>AirQualityAlarmMode\<close> (\<open>a\<close> true)
  or to \<open>AirQualityMode\<close> (\<open>a\<close> false); no mode has a handler of its own for this event, so
  nothing mode-local can take precedence. With \<open>a\<close> equal to the stored flag the handler
  changes nothing: no transition, no call, the same state.
\<close>

theorem alarm_state_changed_priority:
  "(alarmed m \<noteq> a \<longrightarrow>
      AlarmStateChanged a m =
        SetState (if a then AirQualityAlarmMode else AirQualityMode) (m\<lparr>alarmed := a\<rparr>)
      \<and> alarmed (AlarmStateChanged a m) = a
      \<and> state (AlarmStateChanged a m) = (if a then AirQualityAlarmMode else AirQualityMode))
   \<and> (alarmed m = a \<longrightarrow> AlarmStateChanged a m = m)"
  by (simp add: AlarmStateChanged_def Let_def SetState_fields)

theorem alarm_state_changed_priority_witness:
  "alarmed (SetState ColorRotationDemo
      (StateManager_new \<lparr>shown_color = Rgb 0 0 0, shown_brightness = 0\<rparr> 384 512)) \<noteq> True
   \<and> state (SetState ColorRotationDemo
      (StateManager_new \<lparr>shown_color = Rgb 0 0 0, shown_brightness = 0\<rparr> 384 512)) = ColorRotationDemo
   \<and> state (AlarmStateChanged True (SetState ColorRotationDemo
      (StateManager_new \<lparr>shown_color = Rgb 0 0 0, shown_brightness = 0\<rparr> 384 512))) = AirQualityAlarmMode
   \<and> alarmed (StateManager_new \<lparr>shown_color = Rgb 0 0 0, shown_brightness = 0\<rparr> 384 512) = False
   \<and> AlarmStateChanged False
        (StateManager_new \<lparr>shown_color = Rgb 0 0 0, shown_brightness = 0\<rparr> 384 512) =
      StateManager_new \<lparr>shown_color = Rgb 0 0 0, shown_brightness = 0\<rparr> 384 512"
  using alarm_state_changed_priority [of "SetState ColorRotationDemo
      (StateManager_new \<lparr>shown_color = Rgb 0 0 0, shown_brightness = 0\<rparr> 384 512)" True]
    alarm_state_changed_priority [of
      "StateManager_new \<lparr>shown_color = Rgb 0 0 0, shown_brightness = 0\<rparr> 384 512" False]
  by (simp add: example_manager SetState_fields)

text \<open>
  C5. Constructing a timeout-bearing mode arms the countdown timer for its fixed duration:
  3 seconds for \<open>AirQualityThresholdMode\<close>, 30 seconds for \<open>ProximityDemo\<close>, \<open>MorseCodeDemo\<close>
  and \<open>ColorRotationDemo\<close>. In each of these modes (none overrides either handler) a
  release of button Y makes the transition to \<open>MorseReadout\<close> and the expiry of the timer
  makes the transition to \<open>AirQualityMode\<close>. In every other mode the expiry of the timer
  changes nothing.
\<close>

theorem timeout_states:
  "(timeout_bearing M \<longrightarrow>
      demo_mode_timer (construct M m) =
        Armed (if M = AirQualityThresholdMode then seconds 3 else seconds 30)
      \<and> InvokedAfter (if M = AirQualityThresholdMode then seconds 3 else seconds 30)
           \<in> set (drop (length (effects m)) (effects (construct M m))))
   \<and> (timeout_bearing (state m) \<longrightarrow>
      ButtonYReleased m = SetState MorseReadout m
      \<and> state (ButtonYReleased m) = MorseReadout
      \<and> DemoModeTimerExpired_handler m = SetState AirQualityMode m
      \<and> state (DemoModeTimerExpired_handler m) = AirQualityMode)
   \<and> (\<not> timeout_bearing (state m) \<longrightarrow> DemoModeTimerExpired_handler m = m)"
proof -
  have a: "timeout_bearing M \<longrightarrow>
      demo_mode_timer (construct M m) =
        Armed (if M = AirQualityThresholdMode then seconds 3 else seconds 30)
      \<and> InvokedAfter (if M = AirQualityThresholdMode then seconds 3 else seconds 30)
           \<in> set (drop (length (effects m)) (effects (construct M m)))"
    by (cases M) (simp_all add: TimeoutState_ctor_def State_ctor_def call_defs InvokeAfter_def
        kThresholdModeTimeout_def kDemoModeTimeout_def for_at_least_def)
  have b: "timeout_bearing (state m) \<longrightarrow>
      ButtonYReleased m = SetState MorseReadout m
      \<and> state (ButtonYReleased m) = MorseReadout
      \<and> DemoModeTimerExpired_handler m = SetState AirQualityMode m
      \<and> state (DemoModeTimerExpired_handler m) = AirQualityMode"
    using SetState_fields [of MorseReadout m] SetState_fields [of AirQualityMode m]
    by (cases "state m") (simp_all add: ButtonYReleased_def DemoModeTimerExpired_handler_def)
  have c: "\<not> timeout_bearing (state m) \<longrightarrow> DemoModeTimerExpired_handler m = m"
    by (cases "state m") (simp_all add: DemoModeTimerExpired_handler_def)
  from a b c show ?thesis by blast
qed

theorem timeout_states_witness:
  "timeout_bearing AirQualityThresholdMode
   \<and> demo_mode_timer (construct AirQualityThresholdMode
        (StateManager_new \<lparr>shown_color = Rgb 0 0 0, shown_brightness = 0\<rparr> 384 512)) = Armed 3000
   \<and> timeout_bearing (state (SetState ProximityDemo
        (StateManager_new \<lparr>shown_color = Rgb 0 0 0, shown_brightness = 0\<rparr> 384 512)))
   \<and> state (ButtonYReleased (SetState ProximityDemo
        (StateManager_new \<lparr>shown_color = Rgb 0 0 0, shown_brightness = 0\<rparr> 384 512))) = MorseReadout
   \<and> state (DemoModeTimerExpired_handler (SetState ProximityDemo
        (StateManager_new \<lparr>shown_color = Rgb 0 0 0, shown_brightness = 0\<rparr> 384 512))) = AirQualityMode
   \<and> \<not> timeout_bearing
        (state (StateManager_new \<lparr>shown_color = Rgb 0 0 0, shown_brightness = 0\<rparr> 384 512))
   \<and> DemoModeTimerExpired_handler
        (StateManager_new \<lparr>shown_color = Rgb 0 0 0, shown_brightness = 0\<rparr> 384 512) =
      StateManager_new \<lparr>shown_color = Rgb 0 0 0, shown_brightness = 0\<rparr> 384 512"
proof -
  have t: "state (SetState ProximityDemo
        (StateManager_new \<lparr>shown_color = Rgb 0 0 0, shown_brightness = 0\<rparr> 384 512)) = ProximityDemo"
    by (simp add: SetState_fields)
  have n: "state (StateManager_new \<lparr>shown_color = Rgb 0 0 0, shown_brightness = 0\<rparr> 384 512) =
      AirQualityMode"
    by (simp add: example_manager)
  show ?thesis
    using timeout_states [of AirQualityThresholdMode
        "StateManager_new \<lparr>shown_color = Rgb 0 0 0, shown_brightness = 0\<rparr> 384 512"]
      timeout_states [of AirQualityThresholdMode "SetState ProximityDemo
        (StateManager_new \<lparr>shown_color = Rgb 0 0 0, shown_brightness = 0\<rparr> 384 512)"]
    by (simp add: t n seconds_def SetState_fields)
qed

text \<open>
  C7. From \<open>ProximityDemo\<close>, a release of button X leads to \<open>MorseCodeDemo\<close>, a second one
  to \<open>ColorRotationDemo\<close> and a third one back to \<open>ProximityDemo\<close>.
\<close>

theorem demo_cycle:
  "state m = ProximityDemo \<Longrightarrow>
     state (ButtonXReleased m) = MorseCodeDemo
     \<and> state (ButtonXReleased (ButtonXReleased m)) = ColorRotationDemo
     \<and> state (ButtonXReleased (ButtonXReleased (ButtonXReleased m))) = ProximityDemo"
proof -
  assume p: "state m = ProximityDemo"
  have 1: "ButtonXReleased m = SetState MorseCodeDemo m"
    using p by (simp add: ButtonXReleased_def)
  have 2: "ButtonXReleased (SetState MorseCodeDemo m) =
      SetState ColorRotationDemo (SetState MorseCodeDemo m)"
    using SetState_fields [of MorseCodeDemo m] by (simp add: ButtonXReleased_def)
  have 3: "ButtonXReleased (SetState ColorRotationDemo (SetState MorseCodeDemo m)) =
      SetState ProximityDemo (SetState ColorRotationDemo (SetState MorseCodeDemo m))"
    using SetState_fields [of ColorRotationDemo "SetState MorseCodeDemo m"]
    by (simp add: ButtonXReleased_def)
  show ?thesis
    using 1 2 3 SetState_fields [of MorseCodeDemo m]
      SetState_fields [of ColorRotationDemo "SetState MorseCodeDemo m"]
      SetState_fields [of ProximityDemo "SetState ColorRotationDemo (SetState MorseCodeDemo m)"]
    by simp
qed

theorem demo_cycle_witness:
  "state (SetState ProximityDemo
      (StateManager_new \<lparr>shown_color = Rgb 0 0 0, shown_brightness = 0\<rparr> 384 512)) = ProximityDemo
   \<and> state (ButtonXReleased (ButtonXReleased (ButtonXReleased (SetState ProximityDemo
      (StateManager_new \<lparr>shown_color = Rgb 0 0 0, shown_brightness = 0\<rparr> 384 512))))) = ProximityDemo"
proof -
  have h: "state (SetState ProximityDemo
      (StateManager_new \<lparr>shown_color = Rgb 0 0 0, shown_brightness = 0\<rparr> 384 512)) = ProximityDemo"
    by (simp add: SetState_fields)
  show ?thesis using h demo_cycle [OF h] by simp
qed

section \<open>Properties of the threshold\<close>

lemma IncrementThreshold_fields:
  "current_threshold (IncrementThreshold d m) =
     (if unat kMaxThreshold < unat (current_threshold m) + unat kThresholdIncrement
      then kMaxThreshold else current_threshold m + kThresholdIncrement)
   \<and> air_quality_score_string (IncrementThreshold d m) =
       decimal (unat (current_threshold (IncrementThreshold d m)))
   \<and> demo_mode_timer (IncrementThreshold d m) = Armed d
   \<and> state (IncrementThreshold d m) = state m"
  by (simp add: IncrementThreshold_def Let_def timer_InvokeAfter_def DisplayThreshold_def
      InvokeAfter_def)

lemma DecrementThreshold_fields:
  "current_threshold (DecrementThreshold d m) =
     (if unat (current_threshold m) < unat kThresholdIncrement
      then 0 else current_threshold m - kThresholdIncrement)
   \<and> air_quality_score_string (DecrementThreshold d m) =
       decimal (unat (current_threshold (DecrementThreshold d m)))
   \<and> demo_mode_timer (DecrementThreshold d m) = Armed d
   \<and> state (DecrementThreshold d m) = state m"
  by (simp add: DecrementThreshold_def Let_def timer_InvokeAfter_def DisplayThreshold_def
      InvokeAfter_def)

lemma IncrementThreshold_value:
  "current_threshold m \<in> threshold_steps \<Longrightarrow>
     current_threshold (IncrementThreshold d m) \<in> threshold_steps
     \<and> unat (current_threshold (IncrementThreshold d m)) =
         min (unat (current_threshold m) + 128) 768"
  unfolding threshold_steps_def
  by (auto simp: IncrementThreshold_fields kMaxThreshold_def kThresholdIncrement_def)

lemma DecrementThreshold_value:
  "current_threshold m \<in> threshold_steps \<Longrightarrow>
     current_threshold (DecrementThreshold d m) \<in> threshold_steps
     \<and> int (unat (current_threshold (DecrementThreshold d m))) =
         max (int (unat (current_threshold m)) - 128) 0"
  unfolding threshold_steps_def
  by (auto simp: DecrementThreshold_fields kMaxThreshold_def kThresholdIncrement_def)

lemma threshold_calls_invariant:
  "current_threshold m \<in> threshold_steps \<Longrightarrow>
     current_threshold (foldl threshold_call m calls) \<in> threshold_steps"
proof (induction calls arbitrary: m)
  case Nil
  then show ?case by simp
next
  case (Cons c calls)
  have "current_threshold (threshold_call m c) \<in> threshold_steps"
    using Cons.prems IncrementThreshold_value DecrementThreshold_value by (cases c) simp_all
  then show ?case
    using Cons.IH by simp
qed

text \<open>
  C2. From a threshold in \<open>{0, 128, ..., 768}\<close>, every finite sequence of calls of
  \<open>IncrementThreshold\<close> and \<open>DecrementThreshold\<close> leaves the threshold in that set. An
  increment adds 128 and stops at 768, a decrement subtracts 128 and stops at 0, without
  wrapping; at the boundary the value stays as it is. Each call renders the threshold into
  the display string and arms the countdown timer with the duration it is given.
\<close>

theorem threshold_stays_clamped:
  "current_threshold m \<in> threshold_steps \<Longrightarrow>
     current_threshold (foldl threshold_call m calls) \<in> threshold_steps
     \<and> unat (current_threshold (IncrementThreshold d m)) =
         min (unat (current_threshold m) + 128) 768
     \<and> int (unat (current_threshold (DecrementThreshold d m))) =
         max (int (unat (current_threshold m)) - 128) 0
     \<and> (current_threshold m = 768 \<longrightarrow> current_threshold (IncrementThreshold d m) = 768)
     \<and> (current_threshold m = 0 \<longrightarrow> current_threshold (DecrementThreshold d m) = 0)
     \<and> air_quality_score_string (IncrementThreshold d m) =
         decimal (unat (current_threshold (IncrementThreshold d m)))
     \<and> air_quality_score_string (DecrementThreshold d m) =
         decimal (unat (current_threshold (DecrementThreshold d m)))
     \<and> demo_mode_timer (IncrementThreshold d m) = Armed d
     \<and> demo_mode_timer (DecrementThreshold d m) = Armed d"
proof -
  assume a: "current_threshold m \<in> threshold_steps"
  have b: "(current_threshold m = 768 \<longrightarrow> current_threshold (IncrementThreshold d m) = 768)
     \<and> (current_threshold m = 0 \<longrightarrow> current_threshold (DecrementThreshold d m) = 0)"
    by (simp add: IncrementThreshold_fields DecrementThreshold_fields kMaxThreshold_def
        kThresholdIncrement_def)
  show ?thesis
    using threshold_calls_invariant [OF a, of calls] IncrementThreshold_value [OF a, of d]
      DecrementThreshold_value [OF a, of d] b IncrementThreshold_fields [of d m]
      DecrementThreshold_fields [of d m]
    by simp
qed

theorem threshold_stays_clamped_witness:
  "current_threshold
      (StateManager_new \<lparr>shown_color = Rgb 0 0 0, shown_brightness = 0\<rparr> 384 512) \<in> threshold_steps
   \<and> current_threshold (foldl threshold_call
      (StateManager_new \<lparr>shown_color = Rgb 0 0 0, shown_brightness = 0\<rparr> 384 512)
      [Increment 3000, Increment 3000, Increment 3000, Increment 3000, Increment 3000]) = 768
   \<and> current_threshold (foldl threshold_call
      (StateManager_new \<lparr>shown_color = Rgb 0 0 0, shown_brightness = 0\<rparr> 384 512)
      [Increment 3000, Increment 3000, Increment 3000, Increment 3000, Increment 3000]) \<in> threshold_steps
   \<and> unat (current_threshold (IncrementThreshold 3000
      (StateManager_new \<lparr>shown_color = Rgb 0 0 0, shown_brightness = 0\<rparr> 384 512))) = 512
   \<and> demo_mode_timer (IncrementThreshold 3000
      (StateManager_new \<lparr>shown_color = Rgb 0 0 0, shown_brightness = 0\<rparr> 384 512)) = Armed 3000"
proof -
  have h: "current_threshold
      (StateManager_new \<lparr>shown_color = Rgb 0 0 0, shown_brightness = 0\<rparr> 384 512) \<in> threshold_steps"
    by (simp add: example_manager threshold_steps_def)
  have v: "current_threshold (foldl threshold_call
      (StateManager_new \<lparr>shown_color = Rgb 0 0 0, shown_brightness = 0\<rparr> 384 512)
      [Increment 3000, Increment 3000, Increment 3000, Increment 3000, Increment 3000]) = 768"
    by (simp add: example_manager IncrementThreshold_fields kMaxThreshold_def
        kThresholdIncrement_def)
  show ?thesis
    using h v threshold_stays_clamped [OF h, of
        "[Increment 3000, Increment 3000, Increment 3000, Increment 3000, Increment 3000]" 3000]
    by (simp add: example_manager)
qed

section \<open>Properties of the event type\<close>




section \<open>Properties of Blinky\<close>

lemma Toggle_flips_led:
  "monochrome_led_lit (Toggle x) = (\<not> monochrome_led_lit x)
   \<and> filter is_led_operation (performed (Toggle x)) =
       filter is_led_operation (performed x) @ [LedToggle]"
  by (simp add: Toggle_def mono_Toggle_def log_info_def blink_task_Deregister_def)

text \<open>
  C9. In every state, \<open>BlinkTwice\<close> returns \<open>OkStatus\<close>, makes no call on an LED and leaves
  the state of \<open>Blinky\<close> as it is; all it does is write one line to the log.
\<close>

theorem BlinkTwice_only_logs:
  "fst (BlinkTwice x) = OkStatus
   \<and> snd (BlinkTwice x) =
       x\<lparr>performed := performed x @ [LogInfo ''Blinking %u times at a %ums interval'' [2, 1000]]\<rparr>
   \<and> monochrome_led_lit (snd (BlinkTwice x)) = monochrome_led_lit x
   \<and> blink_task_registered (snd (BlinkTwice x)) = blink_task_registered x
   \<and> filter is_led_operation (performed (snd (BlinkTwice x))) =
       filter is_led_operation (performed x)"
  by (simp add: BlinkTwice_def Let_def log_info_def)

lemma BlinkLoop_from_Some_count:
  "BlinkLoop_from blinked blink_count interval x = Some y \<Longrightarrow> blink_count \<noteq> 0"
proof -
  assume a: "BlinkLoop_from blinked blink_count interval x = Some y"
  have "(\<And>f b c i z res.
           (\<And>b' c' i' z' res'. f b' c' i' z' = Some res' \<Longrightarrow> c' \<noteq> 0) \<Longrightarrow>
           (if b < c \<or> c = 0 then f (b + 1) c i (blink_once i z) else Some (blink_stop z)) = Some res \<Longrightarrow>
           c \<noteq> (0::32 word))"
    by (auto split: if_splits)
  from BlinkLoop_from.raw_induct
    [where P = "\<lambda>b c i z res. c \<noteq> 0" and xa = "(((blinked, blink_count), interval), x)"
      and y = y, simplified, OF this a]
  show ?thesis .
qed

lemma BlinkLoop_from_run:
  "unat blink_count - unat blinked = n \<Longrightarrow> blinked \<le> blink_count \<Longrightarrow> blink_count \<noteq> 0 \<Longrightarrow>
     BlinkLoop_from blinked blink_count interval x =
       Some (blink_stop ((blink_once interval ^^ n) x))"
proof (induction n arbitrary: blinked x)
  case 0
  then have "blinked = blink_count"
    by (simp add: word_le_nat_alt word_unat_eq_iff)
  then show ?case
    using "0.prems" by (simp add: BlinkLoop_from.simps)
next
  case (Suc n)
  have lt: "blinked < blink_count"
    using Suc.prems by (simp add: word_less_nat_alt)
  have suc: "unat (blinked + 1) = Suc (unat blinked)"
  proof -
    have "unat blinked < unat blink_count"
      using lt by (simp add: word_less_nat_alt)
    moreover have "unat blink_count < 2 ^ 32"
      using unsigned_less [of blink_count, where ?'a = nat] by simp
    ultimately show ?thesis
      by (simp add: unat_word_ariths)
  qed
  have le: "blinked + 1 \<le> blink_count"
    using lt suc by (simp add: word_le_nat_alt word_less_nat_alt)
  have n: "unat blink_count - unat (blinked + 1) = n"
    using Suc.prems suc by simp
  have "BlinkLoop_from blinked blink_count interval x =
      BlinkLoop_from (blinked + 1) blink_count interval (blink_once interval x)"
    using lt by (subst BlinkLoop_from.simps) simp
  also have "\<dots> = Some (blink_stop ((blink_once interval ^^ n) (blink_once interval x)))"
    using Suc.IH [OF n le Suc.prems(3)] .
  finally show ?case by (simp add: funpow_swap1)
qed

lemma blink_once_n:
  "(blink_once interval ^^ n) x =
     x\<lparr>monochrome_led_lit := (if n = 0 then monochrome_led_lit x else True),
       performed := performed x @ concat (replicate n
         [LogInfo ''LED blinking: OFF'' [], LedTurnOff, WaitFor interval,
          LogInfo ''LED blinking: ON'' [], LedTurnOn, WaitFor interval])\<rparr>"
proof (induction n arbitrary: x)
  case 0
  then show ?case by simp
next
  case (Suc n)
  show ?case
    by (simp only: funpow_Suc_right o_apply Suc.IH)
      (simp add: blink_once_def Let_def log_info_def mono_TurnOff_def mono_TurnOn_def
        timer_WaitFor_def)
qed

lemma led_operations_blink_record:
  "filter is_led_operation (blink_record n interval) =
     concat (replicate n [LedTurnOff, LedTurnOn]) @ [LedTurnOff]"
  by (induction n) (simp_all add: blink_record_def)

text \<open>
  C10. \<open>BlinkLoop\<close> ends if and only if \<open>blink_count\<close> is greater than 0. With
  \<open>blink_count > 0\<close> it goes through the loop body exactly \<open>blink_count\<close> times (the LED
  off, a wait, the LED on, a wait), then turns the LED off and returns \<open>OkStatus\<close>; the
  calls on the LED are \<open>blink_count\<close> pairs off/on followed by one off. With
  \<open>blink_count = 0\<close> it never returns.
\<close>

theorem BlinkLoop_terminates_iff:
  "(\<exists>res. BlinkLoop blink_count interval x = Some res) = (0 < blink_count)
   \<and> (0 < blink_count \<longrightarrow>
        BlinkLoop blink_count interval x =
          Some (OkStatus,
                x\<lparr>monochrome_led_lit := False,
                  performed := performed x @ blink_record (unat blink_count) interval\<rparr>))
   \<and> filter is_led_operation (blink_record (unat blink_count) interval) =
        concat (replicate (unat blink_count) [LedTurnOff, LedTurnOn]) @ [LedTurnOff]
   \<and> (blink_count = 0 \<longrightarrow> BlinkLoop blink_count interval x = None)"
proof -
  have zero: "blink_count = 0 \<longrightarrow> BlinkLoop blink_count interval x = None"
    using BlinkLoop_from_Some_count [of 0 blink_count interval x]
    by (cases "BlinkLoop blink_count interval x") (auto simp: BlinkLoop_def)
  have pos: "0 < blink_count \<longrightarrow>
        BlinkLoop blink_count interval x =
          Some (OkStatus,
                x\<lparr>monochrome_led_lit := False,
                  performed := performed x @ blink_record (unat blink_count) interval\<rparr>)"
  proof
    assume p: "0 < blink_count"
    then have nz: "blink_count \<noteq> 0" by simp
    have "BlinkLoop blink_count interval x =
        Some (blink_stop ((blink_once interval ^^ unat blink_count) x))"
      unfolding BlinkLoop_def
      by (rule BlinkLoop_from_run) (simp_all add: nz)
    then show "BlinkLoop blink_count interval x =
          Some (OkStatus,
                x\<lparr>monochrome_led_lit := False,
                  performed := performed x @ blink_record (unat blink_count) interval\<rparr>)"
      by (simp add: blink_once_n blink_stop_def log_info_def mono_TurnOff_def blink_record_def)
  qed
  have iff: "(\<exists>res. BlinkLoop blink_count interval x = Some res) = (0 < blink_count)"
    using zero pos by (cases "blink_count = 0") (auto simp: word_greater_zero_iff)
  show ?thesis
    using iff pos zero led_operations_blink_record [of "unat blink_count" interval] by blast
qed

theorem BlinkLoop_terminates_iff_witness:
  "(0::32 word) < 2
   \<and> BlinkLoop 2 500 \<lparr>monochrome_led_lit = True, blink_task_registered = True, performed = []\<rparr> =
      Some (OkStatus,
        \<lparr>monochrome_led_lit = False, blink_task_registered = True,
         performed =
           [LogInfo ''LED blinking: OFF'' [], LedTurnOff, WaitFor 500,
            LogInfo ''LED blinking: ON'' [], LedTurnOn, WaitFor 500,
            LogInfo ''LED blinking: OFF'' [], LedTurnOff, WaitFor 500,
            LogInfo ''LED blinking: ON'' [], LedTurnOn, WaitFor 500,
            LedTurnOff, LogInfo ''Stopped blinking'' []]\<rparr>)
   \<and> BlinkLoop 0 500 \<lparr>monochrome_led_lit = True, blink_task_registered = True, performed = []\<rparr> = None"
proof -
  have two: "unat (2::32 word) = 2"
    by simp
  have rec: "blink_record 2 500 =
      [LogInfo ''LED blinking: OFF'' [], LedTurnOff, WaitFor 500,
       LogInfo ''LED blinking: ON'' [], LedTurnOn, WaitFor 500,
       LogInfo ''LED blinking: OFF'' [], LedTurnOff, WaitFor 500,
       LogInfo ''LED blinking: ON'' [], LedTurnOn, WaitFor 500,
       LedTurnOff, LogInfo ''Stopped blinking'' []]"
    by (simp add: blink_record_def numeral_2_eq_2)
  have pos: "(0::32 word) < 2"
    by simp
  show ?thesis
    using pos BlinkLoop_terminates_iff [of 2 500
        "\<lparr>monochrome_led_lit = True, blink_task_registered = True, performed = []\<rparr>"]
      BlinkLoop_terminates_iff [of 0 500
        "\<lparr>monochrome_led_lit = True, blink_task_registered = True, performed = []\<rparr>"]
    by (simp only: two rec) simp
qed

end
